theory Spec2Isabelle
  imports Main
begin

unbundle bit_operations_syntax

section \<open>The kernel services used by bottomhalf.c\<close>

text \<open>
  The module talks to three kernel services: the legacy GPIO interface, the interrupt
  layer and the work queue. None of them is part of the repository, so they are modelled
  as an explicit kernel state that every call transforms, together with a log of the
  calls in the order in which they were issued. The status codes of the calls that can
  fail are not decided by the module; they are read from an environment \<open>env\<close> that
  is a parameter of the whole development. The calls to \<open>pr_info\<close> and \<open>pr_err\<close>
  only format a message and are left out.

  GPIO numbers are \<open>unsigned\<close> in C and modelled as \<open>nat\<close>. Status codes, interrupt
  numbers and line values are C \<open>int\<close>s on which the module does no arithmetic; they
  are modelled as \<open>int\<close>.
\<close>

text \<open>The three entries of \<open>linux/gpio.h\<close> that describe how a line is set up.\<close>

datatype gpio_flags = GPIOF_IN | GPIOF_OUT_INIT_LOW | GPIOF_OUT_INIT_HIGH

text \<open>\<open>struct gpio\<close>\<close>

record gpio =
  gpio :: nat
  flags :: gpio_flags
  label :: string

datatype direction = Input | Output

text \<open>
  The trigger bits of \<open>linux/interrupt.h\<close>. The flag word is an \<open>unsigned long\<close>;
  only bitwise or is applied to it, so \<open>nat\<close> with \<open>OR\<close> is exact.
\<close>

definition IRQF_TRIGGER_RISING :: nat where
  "IRQF_TRIGGER_RISING = 1"

definition IRQF_TRIGGER_FALLING :: nat where
  "IRQF_TRIGGER_FALLING = 2"

datatype irqreturn = IRQ_NONE | IRQ_HANDLED | IRQ_WAKE_THREAD

text \<open>One handler attached to an interrupt number by \<open>request_irq\<close>.\<close>

record irqaction =
  act_irq :: int
  act_flags :: nat
  act_name :: string

text \<open>The log: one entry per call, with the arguments and, where there is one, the result.\<close>

datatype call =
    GpioRequest nat string int
  | GpioRequestOne nat gpio_flags string int
  | GpioFree nat
  | GpioGet nat int
  | GpioSet nat int
  | GpioToIrq nat int
  | RequestIrq int nat string int
  | FreeIrq int
  | ScheduleWork
  | Msleep nat

text \<open>
  The state: the module's own static array \<open>button_irqs\<close> (two cells, so a pair), the
  lines that are currently requested, the direction and the value of every line, the
  handlers that are currently attached, whether \<open>bottomhalf_work\<close> is pending, and
  the log.
\<close>

record kernel =
  button_irqs :: "int \<times> int"
  requested :: "nat list"
  dir :: "nat \<Rightarrow> direction option"
  val :: "nat \<Rightarrow> int"
  actions :: "irqaction list"
  work_pending :: bool
  calls :: "call list"

text \<open>What the kernel answers to the calls that can fail, as a function of their arguments.\<close>

record env =
  gpio_request_rc :: "nat \<Rightarrow> string \<Rightarrow> int"
  gpio_to_irq_rc :: "nat \<Rightarrow> int"
  request_irq_rc :: "int \<Rightarrow> string \<Rightarrow> int"

definition logged :: "call \<Rightarrow> kernel \<Rightarrow> kernel" where
  "logged c s = s\<lparr>calls := calls s @ [c]\<rparr>"

text \<open>
  \<open>gpio_request(gpio, label)\<close> claims the line and nothing else: it is given no flags,
  so direction and value stay as they were.
\<close>

definition gpio_request :: "env \<Rightarrow> nat \<Rightarrow> string \<Rightarrow> kernel \<Rightarrow> int \<times> kernel" where
  "gpio_request e n l s =
     (let rc = gpio_request_rc e n l in
      (rc, logged (GpioRequest n l rc)
             (if rc = 0 then s\<lparr>requested := requested s @ [n]\<rparr> else s)))"

text \<open>
  \<open>gpio_request_one(gpio, flags, label)\<close> claims the line and configures it as the
  flags say; when it fails the line is left unclaimed and untouched.
\<close>

definition configure :: "nat \<Rightarrow> gpio_flags \<Rightarrow> kernel \<Rightarrow> kernel" where
  "configure n f s =
     (case f of
        GPIOF_IN \<Rightarrow> s\<lparr>dir := (dir s)(n := Some Input)\<rparr>
      | GPIOF_OUT_INIT_LOW \<Rightarrow> s\<lparr>dir := (dir s)(n := Some Output), val := (val s)(n := 0)\<rparr>
      | GPIOF_OUT_INIT_HIGH \<Rightarrow> s\<lparr>dir := (dir s)(n := Some Output), val := (val s)(n := 1)\<rparr>)"

definition gpio_request_one :: "env \<Rightarrow> gpio \<Rightarrow> kernel \<Rightarrow> int \<times> kernel" where
  "gpio_request_one e g s =
     (let rc = gpio_request_rc e (gpio g) (label g) in
      (rc, logged (GpioRequestOne (gpio g) (flags g) (label g) rc)
             (if rc = 0 then configure (gpio g) (flags g) (s\<lparr>requested := requested s @ [gpio g]\<rparr>)
              else s)))"

definition gpio_free :: "nat \<Rightarrow> kernel \<Rightarrow> kernel" where
  "gpio_free n s = logged (GpioFree n) (s\<lparr>requested := remove1 n (requested s)\<rparr>)"

text \<open>
  \<open>gpio_request_array(array, num)\<close> requests the entries in order; at the first failure
  it frees the entries it had obtained, last one first, and returns the error. The second
  argument of the helper holds the entries obtained so far, most recent first.
\<close>

fun gpio_request_entries :: "env \<Rightarrow> nat list \<Rightarrow> gpio list \<Rightarrow> kernel \<Rightarrow> int \<times> kernel" where
  "gpio_request_entries e got [] s = (0, s)"
| "gpio_request_entries e got (g # gs) s =
     (case gpio_request_one e g s of
        (rc, s') \<Rightarrow>
          if rc \<noteq> 0 then (rc, fold gpio_free got s')
          else gpio_request_entries e (gpio g # got) gs s')"

definition gpio_request_array :: "env \<Rightarrow> gpio list \<Rightarrow> nat \<Rightarrow> kernel \<Rightarrow> int \<times> kernel" where
  "gpio_request_array e array num s = gpio_request_entries e [] (take num array) s"

text \<open>\<open>gpio_free_array(array, num)\<close> frees the first \<open>num\<close> entries, in order.\<close>

definition gpio_free_array :: "gpio list \<Rightarrow> nat \<Rightarrow> kernel \<Rightarrow> kernel" where
  "gpio_free_array array num s = fold gpio_free (map gpio (take num array)) s"

definition gpio_get_value :: "nat \<Rightarrow> kernel \<Rightarrow> int \<times> kernel" where
  "gpio_get_value n s = (val s n, logged (GpioGet n (val s n)) s)"

definition gpio_set_value :: "nat \<Rightarrow> int \<Rightarrow> kernel \<Rightarrow> kernel" where
  "gpio_set_value n v s = logged (GpioSet n v) (s\<lparr>val := (val s)(n := v)\<rparr>)"

definition gpio_to_irq :: "env \<Rightarrow> nat \<Rightarrow> kernel \<Rightarrow> int \<times> kernel" where
  "gpio_to_irq e n s = (gpio_to_irq_rc e n, logged (GpioToIrq n (gpio_to_irq_rc e n)) s)"

definition request_irq :: "env \<Rightarrow> int \<Rightarrow> nat \<Rightarrow> string \<Rightarrow> kernel \<Rightarrow> int \<times> kernel" where
  "request_irq e irq fl nm s =
     (let rc = request_irq_rc e irq nm in
      (rc, logged (RequestIrq irq fl nm rc)
             (if rc = 0
              then s\<lparr>actions := actions s @ [\<lparr>act_irq = irq, act_flags = fl, act_name = nm\<rparr>]\<rparr>
              else s)))"

text \<open>
  \<open>free_irq(irq, NULL)\<close> detaches one handler of that interrupt number; every handler
  of the module is attached with the device cookie \<open>NULL\<close>. When none is attached the
  kernel only warns.
\<close>

fun detach :: "int \<Rightarrow> irqaction list \<Rightarrow> irqaction list" where
  "detach irq [] = []"
| "detach irq (a # as) = (if act_irq a = irq then as else a # detach irq as)"

definition free_irq :: "int \<Rightarrow> kernel \<Rightarrow> kernel" where
  "free_irq irq s = logged (FreeIrq irq) (s\<lparr>actions := detach irq (actions s)\<rparr>)"

text \<open>\<open>schedule_work(&bottomhalf_work)\<close>: queueing a pending item again changes nothing.\<close>

definition schedule_work :: "kernel \<Rightarrow> kernel" where
  "schedule_work s = logged ScheduleWork (s\<lparr>work_pending := True\<rparr>)"

definition msleep :: "nat \<Rightarrow> kernel \<Rightarrow> kernel" where
  "msleep ms s = logged (Msleep ms) s"

section \<open>The module\<close>

definition leds :: "gpio list" where
  "leds = [\<lparr>gpio = 4, flags = GPIOF_OUT_INIT_LOW, label = ''LED 1''\<rparr>]"

definition buttons :: "gpio list" where
  "buttons = [\<lparr>gpio = 17, flags = GPIOF_IN, label = ''LED 1 ON BUTTON''\<rparr>,
              \<lparr>gpio = 18, flags = GPIOF_IN, label = ''LED 1 OFF BUTTON''\<rparr>]"

text \<open>
  The state in which the module is loaded: \<open>button_irqs\<close> holds its static initialiser,
  the module owns nothing, and the lines are in whatever state \<open>d\<close> and \<open>v\<close> give.
\<close>

definition loaded :: "(nat \<Rightarrow> direction option) \<Rightarrow> (nat \<Rightarrow> int) \<Rightarrow> kernel" where
  "loaded d v = \<lparr>button_irqs = (- 1, - 1), requested = [], dir = d, val = v,
                 actions = [], work_pending = False, calls = []\<rparr>"

text \<open>Line states used for concrete runs: nothing configured, every line low.\<close>

definition unset :: "nat \<Rightarrow> direction option" where
  "unset n = None"

definition low :: "nat \<Rightarrow> int" where
  "low n = 0"

subsection \<open>bottomhalf_work_fn\<close>

definition bottomhalf_work_fn :: "kernel \<Rightarrow> kernel" where
  "bottomhalf_work_fn s = msleep 500 s"

subsection \<open>button_isr\<close>

text \<open>
  The \<open>else if\<close> arm. It is reached from two places, because \<open>&&\<close> evaluates
  \<open>gpio_get_value\<close> only when the comparison before it holds.
\<close>

definition button_isr_else :: "int \<Rightarrow> kernel \<Rightarrow> kernel" where
  "button_isr_else irq s =
     (if irq = snd (button_irqs s) then
        (case gpio_get_value (gpio (leds ! 0)) s of
           (v, s') \<Rightarrow> if v \<noteq> 0 then gpio_set_value (gpio (leds ! 0)) 0 s' else s')
      else s)"

definition button_isr :: "int \<Rightarrow> kernel \<Rightarrow> irqreturn \<times> kernel" where
  "button_isr irq s =
     (let s1 =
        (if irq = fst (button_irqs s) then
           (case gpio_get_value (gpio (leds ! 0)) s of
              (v, s') \<Rightarrow> if v = 0 then gpio_set_value (gpio (leds ! 0)) 1 s'
                         else button_isr_else irq s')
         else button_isr_else irq s)
      in (IRQ_HANDLED, schedule_work s1))"

subsection \<open>bottomhalf_init\<close>

text \<open>
  The source is compiled in one of two ways: with \<open>NO_GPIO_REQUEST_ARRAY\<close> (kernel
  6.10 and later) every line is requested by its own \<open>gpio_request\<close>; without it the
  lines are requested by \<open>gpio_request_array\<close>.
\<close>

datatype variant = GPIO_REQUEST_ARRAY | NO_GPIO_REQUEST_ARRAY

text \<open>The cleanup labels with \<open>NO_GPIO_REQUEST_ARRAY\<close>; each one falls through to the next.\<close>

definition fail1_na :: "kernel \<Rightarrow> kernel" where
  "fail1_na s = gpio_free (gpio (leds ! 0)) s"

definition fail2_na :: "kernel \<Rightarrow> kernel" where
  "fail2_na s = fail1_na (gpio_free (gpio (buttons ! 0)) s)"

definition fail3_na :: "kernel \<Rightarrow> kernel" where
  "fail3_na s = fail2_na (gpio_free (gpio (buttons ! 1)) s)"

definition fail4_na :: "kernel \<Rightarrow> kernel" where
  "fail4_na s = fail3_na (free_irq (fst (button_irqs s)) s)"

text \<open>
  The cleanup labels without it. \<open>ARRAY_SIZE\<close> is the length of the array; at
  \<open>fail2\<close> the source passes \<open>ARRAY_SIZE(leds)\<close> for \<open>buttons\<close>.
\<close>

definition fail1_ar :: "kernel \<Rightarrow> kernel" where
  "fail1_ar s = gpio_free_array leds (length leds) s"

definition fail2_ar :: "kernel \<Rightarrow> kernel" where
  "fail2_ar s = fail1_ar (gpio_free_array buttons (length leds) s)"

definition fail3_ar :: "kernel \<Rightarrow> kernel" where
  "fail3_ar s = fail2_ar (free_irq (fst (button_irqs s)) s)"

text \<open>
  The part of \<open>bottomhalf_init\<close> after the lines are requested is the same text in both
  variants, except for the labels of its four \<open>goto\<close>s: the first three jump to
  \<open>early\<close> (\<open>fail3\<close> with \<open>NO_GPIO_REQUEST_ARRAY\<close>, \<open>fail2\<close> without), the last one
  to \<open>late\<close> (\<open>fail4\<close>, respectively \<open>fail3\<close>).
\<close>

definition request_irqs ::
  "(kernel \<Rightarrow> kernel) \<Rightarrow> (kernel \<Rightarrow> kernel) \<Rightarrow> env \<Rightarrow> kernel \<Rightarrow> int \<times> kernel" where
  "request_irqs early late e s3 =
     (case gpio_get_value (gpio (buttons ! 0)) s3 of (current, s4) \<Rightarrow>
      case gpio_to_irq e (gpio (buttons ! 0)) s4 of (ret, s5) \<Rightarrow>
      if ret < 0 then (ret, early s5) else
      let s6 = s5\<lparr>button_irqs := (ret, snd (button_irqs s5))\<rparr> in
      case request_irq e (fst (button_irqs s6)) (IRQF_TRIGGER_RISING OR IRQF_TRIGGER_FALLING)
             ''gpiomod#button1'' s6 of (ret, s7) \<Rightarrow>
      if ret \<noteq> 0 then (ret, early s7) else
      case gpio_to_irq e (gpio (buttons ! 1)) s7 of (ret, s8) \<Rightarrow>
      if ret < 0 then (ret, early s8) else
      let s9 = s8\<lparr>button_irqs := (fst (button_irqs s8), ret)\<rparr> in
      case request_irq e (snd (button_irqs s9)) (IRQF_TRIGGER_RISING OR IRQF_TRIGGER_FALLING)
             ''gpiomod#button2'' s9 of (ret, s10) \<Rightarrow>
      if ret \<noteq> 0 then (ret, late s10) else (0, s10))"

fun bottomhalf_init :: "variant \<Rightarrow> env \<Rightarrow> kernel \<Rightarrow> int \<times> kernel" where
  "bottomhalf_init NO_GPIO_REQUEST_ARRAY e s0 =
     (case gpio_request e (gpio (leds ! 0)) (label (leds ! 0)) s0 of (ret, s1) \<Rightarrow>
      if ret \<noteq> 0 then (ret, s1) else
      case gpio_request e (gpio (buttons ! 0)) (label (buttons ! 0)) s1 of (ret, s2) \<Rightarrow>
      if ret \<noteq> 0 then (ret, fail1_na s2) else
      case gpio_request e (gpio (buttons ! 1)) (label (buttons ! 1)) s2 of (ret, s3) \<Rightarrow>
      if ret \<noteq> 0 then (ret, fail2_na s3) else
      request_irqs fail3_na fail4_na e s3)"
| "bottomhalf_init GPIO_REQUEST_ARRAY e s0 =
     (case gpio_request_array e leds (length leds) s0 of (ret, s1) \<Rightarrow>
      if ret \<noteq> 0 then (ret, s1) else
      case gpio_request_array e buttons (length buttons) s1 of (ret, s2) \<Rightarrow>
      if ret \<noteq> 0 then (ret, fail1_ar s2) else
      request_irqs fail2_ar fail3_ar e s2)"

subsection \<open>bottomhalf_exit\<close>

fun bottomhalf_exit :: "variant \<Rightarrow> kernel \<Rightarrow> kernel" where
  "bottomhalf_exit NO_GPIO_REQUEST_ARRAY s =
     (let s1 = free_irq (fst (button_irqs s)) s;
          s2 = free_irq (snd (button_irqs s1)) s1;
          s3 = gpio_set_value (gpio (leds ! 0)) 0 s2;
          s4 = gpio_free (gpio (leds ! 0)) s3;
          s5 = gpio_free (gpio (buttons ! 0)) s4
      in gpio_free (gpio (buttons ! 1)) s5)"
| "bottomhalf_exit GPIO_REQUEST_ARRAY s =
     (let s1 = free_irq (fst (button_irqs s)) s;
          s2 = free_irq (snd (button_irqs s1)) s1;
          s3 = fold (\<lambda>l. gpio_set_value (gpio l) 0) leds s2;
          s4 = gpio_free_array leds (length leds) s3
      in gpio_free_array buttons (length buttons) s4)"

subsection \<open>Concrete kernels\<close>

text \<open>
  A kernel in which every request succeeds and line \<open>n\<close> is mapped to interrupt
  \<open>n + 43\<close>.
\<close>

definition env_ok :: env where
  "env_ok = \<lparr>gpio_request_rc = (\<lambda>n l. 0), gpio_to_irq_rc = (\<lambda>n. int n + 43),
             request_irq_rc = (\<lambda>i nm. 0)\<rparr>"

text \<open>The same kernel, except that line 18 has no interrupt: \<open>gpio_to_irq(18)\<close> is \<open>-ENXIO\<close>.\<close>

definition env_no_irq_18 :: env where
  "env_no_irq_18 = env_ok\<lparr>gpio_to_irq_rc := (gpio_to_irq_rc env_ok)(18 := - 6)\<rparr>"


text \<open>The calls issued between two states of one run.\<close>

definition issued :: "kernel \<Rightarrow> kernel \<Rightarrow> call list" where
  "issued s s' = drop (length (calls s)) (calls s')"

text \<open>The values written to lines, in order, in a stretch of the log.\<close>

fun writes :: "call list \<Rightarrow> (nat \<times> int) list" where
  "writes [] = []"
| "writes (GpioSet n v # cs) = (n, v) # writes cs"
| "writes (c # cs) = writes cs"

text \<open>The LED is on when its line reads non-zero, as \<open>button_isr\<close> tests it.\<close>

definition led_active :: "kernel \<Rightarrow> bool" where
  "led_active s = (val s (gpio (leds ! 0)) \<noteq> 0)"





text \<open>The handler run once for each interrupt number of a list, in order.\<close>

definition interrupts :: "int list \<Rightarrow> kernel \<Rightarrow> kernel" where
  "interrupts irqs s = fold (\<lambda>irq s. snd (button_isr irq s)) irqs s"

text \<open>
  A monitor over the log. It keeps the interrupt number that each line was mapped to
  and the interrupt numbers that currently have a handler, and returns the lines that
  were freed while a handler was attached to one of their interrupt numbers.
\<close>

fun freed_under_irq :: "(nat \<times> int) list \<Rightarrow> int list \<Rightarrow> call list \<Rightarrow> nat list" where
  "freed_under_irq m live [] = []"
| "freed_under_irq m live (GpioToIrq n r # cs) = freed_under_irq ((n, r) # m) live cs"
| "freed_under_irq m live (RequestIrq i f nm rc # cs) =
     freed_under_irq m (if rc = 0 then i # live else live) cs"
| "freed_under_irq m live (FreeIrq i # cs) = freed_under_irq m (remove1 i live) cs"
| "freed_under_irq m live (GpioFree n # cs) =
     (if filter (\<lambda>i. (n, i) \<in> set m) live = [] then freed_under_irq m live cs
      else n # freed_under_irq m live cs)"
| "freed_under_irq m live (c # cs) = freed_under_irq m live cs"

text \<open>The delays, in milliseconds, in a stretch of the log.\<close>

fun delays :: "call list \<Rightarrow> nat list" where
  "delays [] = []"
| "delays (Msleep ms # cs) = ms # delays cs"
| "delays (c # cs) = delays cs"

text \<open>
  Modelled from the spec: which kernel calls may block, sleep or allocate, a property of
  kernel code that is not in the repository. The spec calls the delay of the deferred
  work blocking, takes a read and a write of a line to be one atomic register access,
  and has the scheduler run a submitted unit off the calling context, so that submitting
  returns at once. It says nothing on the calls that set the device up and tear it
  down; the kernel documents them, except \<open>gpio_to_irq\<close>, as calls for process
  context, and they are classified so.
\<close>

fun may_block :: "call \<Rightarrow> bool" where
  "may_block (Msleep ms) = True"
| "may_block (GpioGet n v) = False"
| "may_block (GpioSet n v) = False"
| "may_block ScheduleWork = False"
| "may_block (GpioToIrq n r) = False"
| "may_block c = True"

section \<open>The interrupt handler\<close>

lemma leds_0: "gpio (leds ! 0) = 4"
  by (simp add: leds_def)

lemmas isr_defs = button_isr_def button_isr_else_def gpio_get_value_def gpio_set_value_def
  schedule_work_def logged_def issued_def leds_0 Let_def

lemmas prim_defs = gpio_request_def gpio_request_one_def configure_def gpio_free_def
  gpio_request_array_def gpio_free_array_def gpio_get_value_def gpio_set_value_def
  gpio_to_irq_def request_irq_def free_irq_def schedule_work_def msleep_def logged_def

lemmas init_defs = request_irqs_def fail1_na_def fail2_na_def fail3_na_def fail4_na_def
  fail1_ar_def fail2_ar_def fail3_ar_def leds_def buttons_def Let_def

text \<open>
  C5. Whatever the interrupt number and whatever the state, the handler queues
  \<open>bottomhalf_work\<close> exactly once, as its last call, and returns \<open>IRQ_HANDLED\<close>.
\<close>

theorem button_isr_schedules_once:
  "fst (button_isr irq s) = IRQ_HANDLED
   \<and> count_list (issued s (snd (button_isr irq s))) ScheduleWork = 1
   \<and> last (issued s (snd (button_isr irq s))) = ScheduleWork
   \<and> work_pending (snd (button_isr irq s))"
  by (simp add: isr_defs)

text \<open>
  C2. With \<open>v\<close> the value of the LED line when the handler starts: if the interrupt
  number is the one stored for the "on" button and \<open>v\<close> is zero, the handler writes 1
  to the LED line; else if it is the one stored for the "off" button and \<open>v\<close> is
  non-zero, the handler writes 0; in every other case it writes nothing and the line
  values are unchanged.
\<close>

theorem button_isr_led:
  "(if irq = fst (button_irqs s) \<and> val s 4 = 0
    then writes (issued s (snd (button_isr irq s))) = [(4, 1)]
       \<and> val (snd (button_isr irq s)) = (val s)(4 := 1)
    else if irq = snd (button_irqs s) \<and> val s 4 \<noteq> 0
    then writes (issued s (snd (button_isr irq s))) = [(4, 0)]
       \<and> val (snd (button_isr irq s)) = (val s)(4 := 0)
    else writes (issued s (snd (button_isr irq s))) = []
       \<and> val (snd (button_isr irq s)) = val s)"
  by (simp add: isr_defs)












text \<open>
  C10. Every run of the handler writes to the LED line at most once. When the interrupt
  number equals both stored numbers, the handler toggles: with the LED off the first arm
  writes 1; with the LED on the first condition fails on the LED test, so the
  \<open>else if\<close> arm is evaluated and writes 0.
\<close>

theorem button_isr_one_write:
  "length (writes (issued s (snd (button_isr irq s)))) \<le> 1
   \<and> (irq = fst (button_irqs s) \<and> irq = snd (button_irqs s) \<longrightarrow>
        writes (issued s (snd (button_isr irq s))) = [(4, if val s 4 = 0 then 1 else 0)])"
  by (simp add: isr_defs)

theorem button_isr_one_write_witness:
  "- 1 = fst (button_irqs (loaded unset low)) \<and> - 1 = snd (button_irqs (loaded unset low))
   \<and> writes (issued (loaded unset low) (snd (button_isr (- 1) (loaded unset low)))) = [(4, 1)]"
  using button_isr_one_write [of "loaded unset low" "- 1"]
  by (simp add: loaded_def low_def)

text \<open>
  Loaded with the LED line high, both stored numbers are still \<open>-1\<close>. The handler
  called with \<open>-1\<close> reads the line in the first condition, reads it again in the
  \<open>else if\<close> condition and then switches the LED off.
\<close>

theorem button_isr_both_tokens_counterexample:
  "fst (button_irqs (loaded unset (low(4 := 1)))) = - 1
   \<and> snd (button_irqs (loaded unset (low(4 := 1)))) = - 1
   \<and> issued (loaded unset (low(4 := 1))) (snd (button_isr (- 1) (loaded unset (low(4 := 1)))))
       = [GpioGet 4 1, GpioGet 4 1, GpioSet 4 0, ScheduleWork]
   \<and> val (snd (button_isr (- 1) (loaded unset (low(4 := 1))))) 4 = 0"
  by (simp add: loaded_def isr_defs)

section \<open>Loading and unloading\<close>

text \<open>What a successful \<open>bottomhalf_init\<close> leaves behind, in both variants.\<close>

lemma init_ok:
  assumes "bottomhalf_init v e (loaded d w) = (0, s)"
  shows "button_irqs s = (gpio_to_irq_rc e 17, gpio_to_irq_rc e 18)
    \<and> requested s = [4, 17, 18]
    \<and> actions s =
        [\<lparr>act_irq = gpio_to_irq_rc e 17,
          act_flags = IRQF_TRIGGER_RISING OR IRQF_TRIGGER_FALLING,
          act_name = ''gpiomod#button1''\<rparr>,
         \<lparr>act_irq = gpio_to_irq_rc e 18,
          act_flags = IRQF_TRIGGER_RISING OR IRQF_TRIGGER_FALLING,
          act_name = ''gpiomod#button2''\<rparr>]"
  using assms
  by (cases v) (auto simp add: prim_defs init_defs loaded_def split: if_splits)

lemma button_isr_keeps:
  "button_irqs (snd (button_isr irq s)) = button_irqs s
   \<and> actions (snd (button_isr irq s)) = actions s
   \<and> requested (snd (button_isr irq s)) = requested s"
  by (simp add: isr_defs)

lemma interrupts_keeps:
  "button_irqs (interrupts irqs s) = button_irqs s
   \<and> actions (interrupts irqs s) = actions s
   \<and> requested (interrupts irqs s) = requested s"
  unfolding interrupts_def
  by (induction irqs arbitrary: s) (simp_all add: button_isr_keeps)

lemma exit_from:
  assumes "button_irqs s = (i0, i1)" and "requested s = [4, 17, 18]"
    and "map act_irq (actions s) = [i0, i1]"
  shows "issued s (bottomhalf_exit v s) =
      [FreeIrq i0, FreeIrq i1, GpioSet 4 0, GpioFree 4, GpioFree 17, GpioFree 18]
    \<and> val (bottomhalf_exit v s) 4 = 0
    \<and> actions (bottomhalf_exit v s) = []
    \<and> requested (bottomhalf_exit v s) = []"
  using assms
  by (cases v) (auto simp add: prim_defs init_defs issued_def)

text \<open>
  C4. Let \<open>bottomhalf_init\<close> succeed on the freshly loaded module, in either variant,
  and let any number of interrupts be handled afterwards. Then \<open>bottomhalf_exit\<close>
  issues, in this order, \<open>free_irq\<close> for the two stored interrupt numbers (which are
  the two attached handlers), the write of 0 to the LED line, and \<open>gpio_free\<close> for
  lines 4, 17 and 18. Afterwards the LED line is 0, no handler is attached and no line
  is requested.
\<close>

theorem bottomhalf_exit_after_init:
  assumes "bottomhalf_init v e (loaded d w) = (0, s1)"
  shows "issued (interrupts irqs s1) (bottomhalf_exit v (interrupts irqs s1)) =
      [FreeIrq (fst (button_irqs s1)), FreeIrq (snd (button_irqs s1)), GpioSet 4 0,
       GpioFree 4, GpioFree 17, GpioFree 18]
    \<and> map act_irq (actions s1) = [fst (button_irqs s1), snd (button_irqs s1)]
    \<and> val (bottomhalf_exit v (interrupts irqs s1)) 4 = 0
    \<and> actions (bottomhalf_exit v (interrupts irqs s1)) = []
    \<and> requested (bottomhalf_exit v (interrupts irqs s1)) = []"
proof -
  from init_ok [OF assms]
  have b: "button_irqs s1 = (gpio_to_irq_rc e 17, gpio_to_irq_rc e 18)"
    and r: "requested s1 = [4, 17, 18]"
    and a: "map act_irq (actions s1) = [gpio_to_irq_rc e 17, gpio_to_irq_rc e 18]"
    by simp_all
  from exit_from [of "interrupts irqs s1" "gpio_to_irq_rc e 17" "gpio_to_irq_rc e 18" v] b r a
  show ?thesis
    by (simp add: interrupts_keeps)
qed

theorem bottomhalf_exit_after_init_witness:
  "fst (bottomhalf_init NO_GPIO_REQUEST_ARRAY env_ok (loaded unset low)) = 0
   \<and> led_active (interrupts [60]
        (snd (bottomhalf_init NO_GPIO_REQUEST_ARRAY env_ok (loaded unset low))))
   \<and> val (bottomhalf_exit NO_GPIO_REQUEST_ARRAY (interrupts [60]
        (snd (bottomhalf_init NO_GPIO_REQUEST_ARRAY env_ok (loaded unset low))))) 4 = 0
   \<and> actions (bottomhalf_exit NO_GPIO_REQUEST_ARRAY (interrupts [60]
        (snd (bottomhalf_init NO_GPIO_REQUEST_ARRAY env_ok (loaded unset low))))) = []"
proof -
  let ?r = "bottomhalf_init NO_GPIO_REQUEST_ARRAY env_ok (loaded unset low)"
  have ok: "fst ?r = 0"
    by (simp add: prim_defs init_defs env_ok_def loaded_def)
  then have eq: "?r = (0, snd ?r)"
    by (metis prod.collapse)
  have on: "led_active (interrupts [60] (snd ?r))"
    by (simp add: prim_defs init_defs env_ok_def loaded_def interrupts_def led_active_def
        isr_defs low_def)
  from bottomhalf_exit_after_init [OF eq, of "[60]"] ok on show ?thesis
    by simp
qed

text \<open>
  C9. After a successful \<open>bottomhalf_init\<close>, in either variant, exactly two handlers are
  attached: one to the interrupt number of line 17 and one to that of line 18, which are
  also the two stored numbers. Both were requested with
  \<open>IRQF_TRIGGER_RISING | IRQF_TRIGGER_FALLING\<close>, a flag word that contains the rising
  bit and the falling bit.
\<close>

theorem bottomhalf_init_both_edges:
  assumes "bottomhalf_init v e (loaded d w) = (0, s)"
  shows "button_irqs s = (gpio_to_irq_rc e 17, gpio_to_irq_rc e 18)
    \<and> map act_irq (actions s) = [gpio_to_irq_rc e 17, gpio_to_irq_rc e 18]
    \<and> (\<forall>a \<in> set (actions s).
          act_flags a = IRQF_TRIGGER_RISING OR IRQF_TRIGGER_FALLING
          \<and> act_flags a AND IRQF_TRIGGER_RISING = IRQF_TRIGGER_RISING
          \<and> act_flags a AND IRQF_TRIGGER_FALLING = IRQF_TRIGGER_FALLING)"
  using init_ok [OF assms]
  by (simp add: IRQF_TRIGGER_RISING_def IRQF_TRIGGER_FALLING_def)

theorem bottomhalf_init_both_edges_witness:
  "fst (bottomhalf_init GPIO_REQUEST_ARRAY env_ok (loaded unset low)) = 0
   \<and> map act_irq (actions (snd (bottomhalf_init GPIO_REQUEST_ARRAY env_ok (loaded unset low))))
       = [60, 61]
   \<and> map act_flags (actions (snd (bottomhalf_init GPIO_REQUEST_ARRAY env_ok (loaded unset low))))
       = [3, 3]"
proof -
  let ?r = "bottomhalf_init GPIO_REQUEST_ARRAY env_ok (loaded unset low)"
  have ok: "fst ?r = 0"
    by (simp add: prim_defs init_defs env_ok_def loaded_def)
  then have eq: "?r = (0, snd ?r)"
    by (metis prod.collapse)
  have fl: "map act_flags (actions (snd ?r)) = [3, 3]"
    by (simp add: prim_defs init_defs env_ok_def loaded_def IRQF_TRIGGER_RISING_def
        IRQF_TRIGGER_FALLING_def)
  from bottomhalf_init_both_edges [OF eq] ok fl show ?thesis
    by (simp add: env_ok_def)
qed

text \<open>
  C1. The run in which everything succeeds until \<open>gpio_to_irq(18)\<close> returns \<open>-6\<close>.
  \<open>bottomhalf_init\<close> returns \<open>-6\<close>, but the \<open>goto\<close> of that step skips the label
  that holds \<open>free_irq(button_irqs[0], NULL)\<close>: the handler of interrupt 60 stays
  attached in both variants. Without \<open>NO_GPIO_REQUEST_ARRAY\<close> line 18 stays requested
  as well, because only \<open>ARRAY_SIZE(leds)\<close> entries of \<open>buttons\<close> are freed.
\<close>

theorem bottomhalf_init_no_irq_18_leaks:
  "fst (bottomhalf_init NO_GPIO_REQUEST_ARRAY env_no_irq_18 (loaded unset low)) = - 6
   \<and> requested (snd (bottomhalf_init NO_GPIO_REQUEST_ARRAY env_no_irq_18 (loaded unset low))) = []
   \<and> actions (snd (bottomhalf_init NO_GPIO_REQUEST_ARRAY env_no_irq_18 (loaded unset low)))
       = [\<lparr>act_irq = 60, act_flags = 3, act_name = ''gpiomod#button1''\<rparr>]
   \<and> fst (bottomhalf_init GPIO_REQUEST_ARRAY env_no_irq_18 (loaded unset low)) = - 6
   \<and> requested (snd (bottomhalf_init GPIO_REQUEST_ARRAY env_no_irq_18 (loaded unset low))) = [18]
   \<and> actions (snd (bottomhalf_init GPIO_REQUEST_ARRAY env_no_irq_18 (loaded unset low)))
       = [\<lparr>act_irq = 60, act_flags = 3, act_name = ''gpiomod#button1''\<rparr>]"
  by (simp add: prim_defs init_defs env_no_irq_18_def env_ok_def loaded_def
      IRQF_TRIGGER_RISING_def IRQF_TRIGGER_FALLING_def)

text \<open>
  C6. The log of the same run with \<open>NO_GPIO_REQUEST_ARRAY\<close>: line 17 is mapped to
  interrupt 60, a handler is attached to interrupt 60, and line 17 is freed with no
  \<open>free_irq\<close> before it. The monitor reports line 17 in both variants.
\<close>

theorem bottomhalf_init_frees_line_under_irq:
  "calls (snd (bottomhalf_init NO_GPIO_REQUEST_ARRAY env_no_irq_18 (loaded unset low))) =
     [GpioRequest 4 ''LED 1'' 0, GpioRequest 17 ''LED 1 ON BUTTON'' 0,
      GpioRequest 18 ''LED 1 OFF BUTTON'' 0, GpioGet 17 0, GpioToIrq 17 60,
      RequestIrq 60 3 ''gpiomod#button1'' 0, GpioToIrq 18 (- 6),
      GpioFree 18, GpioFree 17, GpioFree 4]
   \<and> freed_under_irq [] []
        (calls (snd (bottomhalf_init NO_GPIO_REQUEST_ARRAY env_no_irq_18 (loaded unset low))))
       = [17]
   \<and> freed_under_irq [] []
        (calls (snd (bottomhalf_init GPIO_REQUEST_ARRAY env_no_irq_18 (loaded unset low))))
       = [17]"
  by (simp add: prim_defs init_defs env_no_irq_18_def env_ok_def loaded_def low_def
      IRQF_TRIGGER_RISING_def IRQF_TRIGGER_FALLING_def)

text \<open>
  C8. The module loaded while line 4 is high and not configured, on a kernel where every
  request succeeds. Without \<open>NO_GPIO_REQUEST_ARRAY\<close> the LED line is requested with its
  flags and ends as an output at 0. With \<open>NO_GPIO_REQUEST_ARRAY\<close> it is requested by
  \<open>gpio_request(leds[0].gpio, leds[0].label)\<close>, which is not given
  \<open>GPIOF_OUT_INIT_LOW\<close>: \<open>bottomhalf_init\<close> succeeds with the line still not
  configured and still high, so the LED starts on.
\<close>

theorem bottomhalf_init_led_not_configured:
  "fst (bottomhalf_init NO_GPIO_REQUEST_ARRAY env_ok (loaded unset (low(4 := 1)))) = 0
   \<and> dir (snd (bottomhalf_init NO_GPIO_REQUEST_ARRAY env_ok (loaded unset (low(4 := 1))))) 4
       = None
   \<and> val (snd (bottomhalf_init NO_GPIO_REQUEST_ARRAY env_ok (loaded unset (low(4 := 1))))) 4 = 1
   \<and> led_active (snd (bottomhalf_init NO_GPIO_REQUEST_ARRAY env_ok (loaded unset (low(4 := 1)))))
   \<and> fst (bottomhalf_init GPIO_REQUEST_ARRAY env_ok (loaded unset (low(4 := 1)))) = 0
   \<and> dir (snd (bottomhalf_init GPIO_REQUEST_ARRAY env_ok (loaded unset (low(4 := 1))))) 4
       = Some Output
   \<and> val (snd (bottomhalf_init GPIO_REQUEST_ARRAY env_ok (loaded unset (low(4 := 1))))) 4 = 0"
  by (simp add: prim_defs init_defs env_ok_def loaded_def unset_def led_active_def)

section \<open>Blocking calls\<close>

lemma delays_append: "delays (cs @ ds) = delays cs @ delays ds"
  by (induction cs rule: delays.induct) simp_all

lemma init_delays: "delays (calls (snd (bottomhalf_init v e s))) = delays (calls s)"
  by (cases v) (simp_all add: prim_defs init_defs delays_append)

lemma exit_delays: "delays (calls (bottomhalf_exit v s)) = delays (calls s)"
  by (cases v) (simp_all add: prim_defs init_defs delays_append)

text \<open>
  C7. None of the calls that \<open>button_isr\<close> issues may block: it only reads the LED
  line, writes it and queues the work. The work function issues one call, the delay of
  500 ms, which may block. Neither \<open>bottomhalf_init\<close> nor \<open>bottomhalf_exit\<close> issues a
  delay.
\<close>

theorem button_isr_never_blocks:
  "filter may_block (issued s (snd (button_isr irq s))) = []
   \<and> delays (issued s (snd (button_isr irq s))) = []
   \<and> filter may_block (issued s (bottomhalf_work_fn s)) = [Msleep 500]
   \<and> delays (calls (snd (bottomhalf_init v e s))) = delays (calls s)
   \<and> delays (calls (bottomhalf_exit v s)) = delays (calls s)"
  by (simp add: isr_defs bottomhalf_work_fn_def msleep_def init_delays exit_delays)

end
